theory Spec2Isabelle
  imports Main
begin

section \<open>Text\<close>

text \<open>
  Python \<open>str\<close> values are held as \<^typ>\<open>string\<close>: the UTF-8 bytes of the text.
  The emoji and the bullet of the source's messages are the byte sequences below
  (the code points are given beside each).
\<close>

abbreviation NL :: char where
  "NL \<equiv> CHR 0x0A"

definition cross_mark :: string where \<comment> \<open>U+274C\<close>
  "cross_mark = [CHR 0xE2, CHR 0x9D, CHR 0x8C]"

definition warning_sign :: string where \<comment> \<open>U+26A0 U+FE0F\<close>
  "warning_sign = [CHR 0xE2, CHR 0x9A, CHR 0xA0, CHR 0xEF, CHR 0xB8, CHR 0x8F]"

definition check_mark :: string where \<comment> \<open>U+2705\<close>
  "check_mark = [CHR 0xE2, CHR 0x9C, CHR 0x85]"

definition folder_sign :: string where \<comment> \<open>U+1F4C1\<close>
  "folder_sign = [CHR 0xF0, CHR 0x9F, CHR 0x93, CHR 0x81]"

definition whale_sign :: string where \<comment> \<open>U+1F433\<close>
  "whale_sign = [CHR 0xF0, CHR 0x9F, CHR 0x90, CHR 0xB3]"

definition globe_sign :: string where \<comment> \<open>U+1F310\<close>
  "globe_sign = [CHR 0xF0, CHR 0x9F, CHR 0x8C, CHR 0x90]"

definition plug_sign :: string where \<comment> \<open>U+1F50C\<close>
  "plug_sign = [CHR 0xF0, CHR 0x9F, CHR 0x94, CHR 0x8C]"

definition cabinet_sign :: string where \<comment> \<open>U+1F5C4 U+FE0F\<close>
  "cabinet_sign = [CHR 0xF0, CHR 0x9F, CHR 0x97, CHR 0x84, CHR 0xEF, CHR 0xB8, CHR 0x8F]"

definition antenna_sign :: string where \<comment> \<open>U+1F4E1\<close>
  "antenna_sign = [CHR 0xF0, CHR 0x9F, CHR 0x93, CHR 0xA1]"

definition clipboard_sign :: string where \<comment> \<open>U+1F4CB\<close>
  "clipboard_sign = [CHR 0xF0, CHR 0x9F, CHR 0x93, CHR 0x8B]"

definition chart_sign :: string where \<comment> \<open>U+1F4CA\<close>
  "chart_sign = [CHR 0xF0, CHR 0x9F, CHR 0x93, CHR 0x8A]"

definition party_sign :: string where \<comment> \<open>U+1F389\<close>
  "party_sign = [CHR 0xF0, CHR 0x9F, CHR 0x8E, CHR 0x89]"

definition rocket_sign :: string where \<comment> \<open>U+1F680\<close>
  "rocket_sign = [CHR 0xF0, CHR 0x9F, CHR 0x9A, CHR 0x80]"

definition wrench_sign :: string where \<comment> \<open>U+1F527\<close>
  "wrench_sign = [CHR 0xF0, CHR 0x9F, CHR 0x94, CHR 0xA7]"

definition lens_sign :: string where \<comment> \<open>U+1F50D\<close>
  "lens_sign = [CHR 0xF0, CHR 0x9F, CHR 0x94, CHR 0x8D]"

definition clock_sign :: string where \<comment> \<open>U+23F0\<close>
  "clock_sign = [CHR 0xE2, CHR 0x8F, CHR 0xB0]"

definition bullet :: string where \<comment> \<open>U+2022\<close>
  "bullet = [CHR 0xE2, CHR 0x80, CHR 0xA2]"

text \<open>\<open>str(n)\<close> for a non-negative integer: its decimal digits.\<close>

definition digit_char :: "nat \<Rightarrow> char" where
  "digit_char d = ''0123456789'' ! d"

fun str_nat :: "nat \<Rightarrow> string" where
  "str_nat n = (if n < 10 then [digit_char n] else str_nat (n div 10) @ [digit_char (n mod 10)])"

declare str_nat.simps [simp del]

text \<open>
  \<open>str.strip()\<close> removes, at both ends, the characters for which \<open>str.isspace\<close> holds:
  U+0009..U+000D, U+001C..U+0020, U+0085, U+00A0, U+1680, U+2000..U+200A, U+2028, U+2029,
  U+202F, U+205F and U+3000, here as their UTF-8 encodings.
\<close>

definition py_spaces :: "string list" where
  "py_spaces =
    [[CHR 0x09], [CHR 0x0A], [CHR 0x0B], [CHR 0x0C], [CHR 0x0D],
     [CHR 0x1C], [CHR 0x1D], [CHR 0x1E], [CHR 0x1F], [CHR 0x20],
     [CHR 0xC2, CHR 0x85], [CHR 0xC2, CHR 0xA0], [CHR 0xE1, CHR 0x9A, CHR 0x80],
     [CHR 0xE2, CHR 0x80, CHR 0x80], [CHR 0xE2, CHR 0x80, CHR 0x81],
     [CHR 0xE2, CHR 0x80, CHR 0x82], [CHR 0xE2, CHR 0x80, CHR 0x83],
     [CHR 0xE2, CHR 0x80, CHR 0x84], [CHR 0xE2, CHR 0x80, CHR 0x85],
     [CHR 0xE2, CHR 0x80, CHR 0x86], [CHR 0xE2, CHR 0x80, CHR 0x87],
     [CHR 0xE2, CHR 0x80, CHR 0x88], [CHR 0xE2, CHR 0x80, CHR 0x89],
     [CHR 0xE2, CHR 0x80, CHR 0x8A], [CHR 0xE2, CHR 0x80, CHR 0xA8],
     [CHR 0xE2, CHR 0x80, CHR 0xA9], [CHR 0xE2, CHR 0x80, CHR 0xAF],
     [CHR 0xE2, CHR 0x81, CHR 0x9F], [CHR 0xE3, CHR 0x80, CHR 0x80]]"

text \<open>The number of bytes of the sequence of \<open>ws\<close> the text starts with; 0 when it starts with none.\<close>

definition head_len :: "string list \<Rightarrow> string \<Rightarrow> nat" where
  "head_len ws s =
    (case find (\<lambda>w. w \<noteq> [] \<and> take (length w) s = w) ws of
       None \<Rightarrow> 0
     | Some w \<Rightarrow> length w)"

lemma head_len_Nil [simp]: "head_len ws [] = 0"
  by (induction ws) (auto simp: head_len_def)

function strip_head :: "string list \<Rightarrow> string \<Rightarrow> string" where
  "strip_head ws s = (if head_len ws s = 0 then s else strip_head ws (drop (head_len ws s) s))"
  by pat_completeness auto
termination
proof (relation "measure (\<lambda>(ws, s). length s)")
  show "wf (measure (\<lambda>(ws, s). length s))" by simp
next
  fix ws :: "string list" and s :: string
  assume "head_len ws s \<noteq> 0"
  then have "s \<noteq> []" by (cases s) auto
  with \<open>head_len ws s \<noteq> 0\<close>
  show "((ws, drop (head_len ws s) s), (ws, s)) \<in> measure (\<lambda>(ws, s). length s)"
    by simp
qed

declare strip_head.simps [simp del]

definition lstrip :: "string \<Rightarrow> string" where
  "lstrip s = strip_head py_spaces s"

definition rstrip :: "string \<Rightarrow> string" where
  "rstrip s = rev (strip_head (map rev py_spaces) (rev s))"

definition strip :: "string \<Rightarrow> string" where
  "strip s = rstrip (lstrip s)"

text \<open>\<open>s.split(sep)\<close> for a one-character separator: never the empty list.\<close>

fun split :: "string \<Rightarrow> char \<Rightarrow> string list" where
  "split [] sep = [[]]"
| "split (c # cs) sep =
    (if c = sep then [] # split cs sep
     else (case split cs sep of
             [] \<Rightarrow> [[c]]
           | r # rs \<Rightarrow> (c # r) # rs))"

section \<open>Exceptions and the environment\<close>

text \<open>
  The exceptions an operating-system call of the script can raise, by the most specific
  class the script tells apart: \<open>socket.gaierror\<close>, any other \<open>OSError\<close>, any other
  subclass of \<open>Exception\<close>. \<open>socket.gaierror\<close> is a subclass of \<open>OSError\<close>, and
  \<open>OSError\<close> of \<open>Exception\<close>, so \<open>except Exception\<close> catches all three and
  \<open>except socket.gaierror\<close> only the first. \<open>exn_str\<close> is \<open>str(e)\<close>.
\<close>

datatype exn_class = Gaierror | OSError | Exception

datatype exn = Exn (exn_class: exn_class) (exn_str: string)

definition is_gaierror :: "exn \<Rightarrow> bool" where
  "is_gaierror e = (exn_class e = Gaierror)"

record completed_process =
  returncode :: int
  stdout :: string

text \<open>
  What the script asks of its environment. Each field answers one library call:
  \<^item> \<open>os_path_exists p\<close>: \<open>os.path.exists(p)\<close>, which returns False where the stat fails;
  \<^item> \<open>subprocess_run argv\<close>: \<open>subprocess.run(argv, capture_output=True, text=True)\<close>;
  \<^item> \<open>socket_socket port\<close>: \<open>socket.socket(AF_INET, SOCK_STREAM)\<close> in the iteration for
    \<open>port\<close>: None when the socket is created, the exception otherwise;
  \<^item> \<open>connect_ex addr\<close>: \<open>sock.connect_ex(addr)\<close> under the 3-second timeout: the error
    number returned (0 on success, an errno for a refused or timed-out connect) or the
    exception raised;
  \<^item> \<open>gethostbyname h\<close>: \<open>socket.gethostbyname(h)\<close>;
  \<^item> \<open>datetime_now\<close>: \<open>str(datetime.now())\<close>.
\<close>

record env =
  os_path_exists :: "string \<Rightarrow> bool"
  subprocess_run :: "string list \<Rightarrow> exn + completed_process"
  socket_socket :: "nat \<Rightarrow> exn option"
  connect_ex :: "string \<times> nat \<Rightarrow> exn + int"
  gethostbyname :: "string \<Rightarrow> exn + string"
  datetime_now :: string

section \<open>The validator\<close>

text \<open>
  The two logs of \<open>PipelineValidator\<close>, with what the process has written to standard
  output (one entry per \<open>print\<close> call) and the sockets it has created (one entry per
  socket, in creation order; a socket's handle is its index). Writing to standard output
  is taken to succeed.
\<close>

datatype sock_state = SockOpen | SockClosed

record state =
  errors :: "string list"
  warnings :: "string list"
  printed :: "string list"
  sockets :: "sock_state list"

definition init :: state where
  "init = \<lparr>errors = [], warnings = [], printed = [], sockets = []\<rparr>"

definition py_print :: "string \<Rightarrow> state \<Rightarrow> state" where
  "py_print x s = s\<lparr>printed := printed s @ [x]\<rparr>"

definition log_error :: "string \<Rightarrow> state \<Rightarrow> state" where
  "log_error message s =
    py_print (cross_mark @ '' ERROR: '' @ message) (s\<lparr>errors := errors s @ [message]\<rparr>)"

definition log_warning :: "string \<Rightarrow> state \<Rightarrow> state" where
  "log_warning message s =
    py_print (warning_sign @ ''  WARNING: '' @ message) (s\<lparr>warnings := warnings s @ [message]\<rparr>)"

definition log_success :: "string \<Rightarrow> state \<Rightarrow> state" where
  "log_success message s = py_print (check_mark @ '' '' @ message) s"

text \<open>A \<open>for\<close> loop whose body only prints: one \<open>print\<close> per element, in order.\<close>

definition print_each :: "('a \<Rightarrow> string) \<Rightarrow> 'a list \<Rightarrow> state \<Rightarrow> state" where
  "print_each f xs s = foldl (\<lambda>s x. py_print (f x) s) s xs"

section \<open>The check routines\<close>

text \<open>
  A routine returns the state it leaves and the exception that leaves it, if any
  (None: the routine returned). A \<open>for\<close> loop over a list is a fold; where the body can
  raise, the loop stops at the first exception.
\<close>

type_synonym routine = "state \<Rightarrow> state \<times> exn option"

definition for_each :: "('a \<Rightarrow> state \<Rightarrow> state) \<Rightarrow> 'a list \<Rightarrow> state \<Rightarrow> state" where
  "for_each body xs s = foldl (\<lambda>s x. body x s) s xs"

fun for_each_raising :: "('a \<Rightarrow> routine) \<Rightarrow> 'a list \<Rightarrow> routine" where
  "for_each_raising body [] s = (s, None)"
| "for_each_raising body (x # xs) s =
    (case body x s of
       (s', None) \<Rightarrow> for_each_raising body xs s'
     | (s', Some e) \<Rightarrow> (s', Some e))"

subsection \<open>check_directories\<close>

definition required_dirs :: "string list" where
  "required_dirs =
    [''/home/homar/spark-kafka-stream/data_lake'',
     ''/home/homar/spark-kafka-stream/checkpoints'',
     ''/home/homar/spark-kafka-stream/scripts'']"

definition check_directories :: "env \<Rightarrow> routine" where
  "check_directories env s =
    (let s = py_print (NL # folder_sign @ '' Checking directories...'') s;
         s = for_each
               (\<lambda>directory s.
                  if os_path_exists env directory then
                    log_success (''Directory exists: '' @ directory) s
                  else
                    log_error (''Directory missing: '' @ directory) s)
               required_dirs s
     in (s, None))"

subsection \<open>check_docker_containers\<close>

definition required_containers :: "string list" where
  "required_containers = [''spark-master'', ''ci-vertica-db'', ''dbeaver-client'', ''pg-db'']"

definition docker_ps :: "string list" where
  "docker_ps = [''docker'', ''ps'', ''--format'', ''{{.Names}}'']"

definition check_docker_containers :: "env \<Rightarrow> routine" where
  "check_docker_containers env s =
    (let s = py_print (NL # whale_sign @ '' Checking Docker containers...'') s in
     case subprocess_run env docker_ps of
       Inr result \<Rightarrow>
         (let running_containers = split (strip (stdout result)) NL in
          (for_each
             (\<lambda>container s.
                if container \<in> set running_containers then
                  log_success (''Container running: '' @ container) s
                else
                  log_error (''Container not running: '' @ container) s)
             required_containers s,
           None))
     | Inl e \<Rightarrow> (log_error (''Failed to check Docker containers: '' @ exn_str e) s, None))"

subsection \<open>check_network_connectivity\<close>

definition docker_ping :: "string list" where
  "docker_ping = [''docker'', ''exec'', ''spark-master'', ''ping'', ''-c'', ''1'', ''ci-vertica-db'']"

definition check_network_connectivity :: "env \<Rightarrow> routine" where
  "check_network_connectivity env s =
    (let s = py_print (NL # globe_sign @ '' Checking network connectivity...'') s in
     case subprocess_run env docker_ping of
       Inr result \<Rightarrow>
         (if returncode result = 0 then
            (log_success ''Spark can reach Vertica container'' s, None)
          else
            (log_error ''Spark cannot reach Vertica container'' s, None))
     | Inl e \<Rightarrow> (log_error (''Failed to test network connectivity: '' @ exn_str e) s, None))"

subsection \<open>check_ports\<close>

definition ports_to_check :: "(nat \<times> string) list" where
  "ports_to_check =
    [(8888, ''Jupyter''), (8978, ''DBeaver''), (15433, ''Vertica''),
     (5445, ''PostgreSQL''), (4040, ''Spark UI'')]"

definition sock_close :: "nat \<Rightarrow> state \<Rightarrow> state" where
  "sock_close sock s = s\<lparr>sockets := (sockets s)[sock := SockClosed]\<rparr>"

text \<open>
  The body of the loop of \<open>check_ports\<close>. The socket is created before the \<open>try\<close>, so an
  exception of \<open>socket.socket\<close> leaves the routine; \<open>settimeout(3)\<close> on the new socket
  has no outcome the script tells apart. The \<open>finally\<close> clause closes the socket after
  either branch of the \<open>try\<close>.
\<close>

definition check_port :: "env \<Rightarrow> nat \<times> string \<Rightarrow> routine" where
  "check_port env ps s =
    (case ps of (port, service) \<Rightarrow>
      (case socket_socket env port of
         Some e \<Rightarrow> (s, Some e)
       | None \<Rightarrow>
           (let sock = length (sockets s);
                s = s\<lparr>sockets := sockets s @ [SockOpen]\<rparr>;
                s = (case connect_ex env (''localhost'', port) of
                       Inr result \<Rightarrow>
                         if result = 0 then
                           log_success (service @ '' accessible on port '' @ str_nat port) s
                         else
                           log_warning (service @ '' not accessible on port '' @ str_nat port) s
                     | Inl e \<Rightarrow>
                         log_warning
                           (''Failed to check '' @ service @ '' on port '' @ str_nat port @ '': '' @ exn_str e) s)
            in (sock_close sock s, None))))"

definition check_ports :: "env \<Rightarrow> routine" where
  "check_ports env s =
    for_each_raising (check_port env) ports_to_check
      (py_print (NL # plug_sign @ '' Checking port accessibility...'') s)"

subsection \<open>check_vertica_status\<close>

definition docker_vsql :: "string list" where
  "docker_vsql =
    [''docker'', ''exec'', ''ci-vertica-db'', ''/opt/vertica/bin/vsql'', ''-U'', ''customer_insights'',
     ''-d'', ''customer_insights'', ''-c'', ''SELECT 1;'']"

definition check_vertica_status :: "env \<Rightarrow> routine" where
  "check_vertica_status env s =
    (let s = py_print (NL # cabinet_sign @ ''  Checking Vertica database...'') s in
     case subprocess_run env docker_vsql of
       Inr result \<Rightarrow>
         (if returncode result = 0 then
            (log_success ''Vertica database is ready'' s, None)
          else
            (log_warning ''Vertica database might still be initializing'' s, None))
     | Inl e \<Rightarrow> (log_warning (''Could not check Vertica status: '' @ exn_str e) s, None))"

subsection \<open>check_kafka_connectivity\<close>

definition kafka_server :: string where
  "kafka_server =
    ''strimzi-kafka-cluster-oci-preprod-kafka-bootstrap.strimzi-kafka-preprod:9092''"

text \<open>
  The handler is \<open>except socket.gaierror\<close>: an exception of any other class leaves the
  routine. \<open>split\<close> never returns the empty list, so element 0 exists.
\<close>

definition check_kafka_connectivity :: "env \<Rightarrow> routine" where
  "check_kafka_connectivity env s =
    (let s = py_print (NL # antenna_sign @ '' Checking Kafka connectivity...'') s in
     case gethostbyname env (hd (split kafka_server CHR '':'')) of
       Inr address \<Rightarrow> (log_success ''Kafka hostname can be resolved'' s, None)
     | Inl e \<Rightarrow>
         if is_gaierror e then
           (log_warning ''Cannot resolve Kafka hostname - ensure VPN is connected'' s, None)
         else (s, Some e))"

subsection \<open>check_notebook_files\<close>

definition notebook_path :: string where
  "notebook_path = ''/home/homar/spark-kafka-stream/scripts/realtime_sms_pipeline.ipynb''"

definition check_notebook_files :: "env \<Rightarrow> routine" where
  "check_notebook_files env s =
    (let s = py_print (NL # clipboard_sign @ '' Checking notebook files...'') s in
     if os_path_exists env notebook_path then
       (log_success ''Pipeline notebook found in scripts directory'' s, None)
     else
       (log_error ''Pipeline notebook not found in scripts directory'' s, None))"

subsection \<open>The report\<close>

definition generate_report :: "state \<Rightarrow> state \<times> bool" where
  "generate_report s =
    (let s = py_print (NL # replicate 60 CHR ''='') s;
         s = py_print (chart_sign @ '' VALIDATION REPORT'') s;
         s = py_print (replicate 60 CHR ''='') s;
         s = (if errors s = [] \<and> warnings s = [] then
                py_print (rocket_sign @ '' Your pipeline is ready for testing!'')
                  (py_print (party_sign @ '' ALL CHECKS PASSED!'') s)
              else s);
         s = (if warnings s \<noteq> [] then
                print_each (\<lambda>warning. ''   '' @ bullet @ '' '' @ warning) (warnings s)
                  (py_print (NL # warning_sign @ ''  WARNINGS ('' @ str_nat (length (warnings s)) @ ''):'') s)
              else s);
         s = (if errors s \<noteq> [] then
                py_print (NL # wrench_sign @ '' Please fix the errors before running the pipeline'')
                  (print_each (\<lambda>error. ''   '' @ bullet @ '' '' @ error) (errors s)
                    (py_print (NL # cross_mark @ '' ERRORS ('' @ str_nat (length (errors s)) @ ''):'') s))
              else s);
         s = py_print (NL # clipboard_sign @ '' Next Steps:'') s;
         s = (if errors s = [] then
                py_print ''4. Monitor results in DBeaver: http://localhost:8978''
                  (py_print ''3. Run the realtime_sms_pipeline.ipynb notebook''
                    (py_print ''2. Open Jupyter: http://localhost:8888''
                      (py_print ''1. Ensure VPN connection to Unifonic Kafka'' s)))
              else
                py_print ''3. Ensure all Docker containers are running''
                  (py_print ''2. Run this validation script again''
                    (py_print ''1. Fix the errors listed above'' s)))
     in (s, length (errors s) = 0))"

section \<open>The entry point\<close>

text \<open>
  How the process ends: \<open>sys.exit(code)\<close>, or an exception that nothing catches, on which
  the interpreter prints the traceback and exits with status 1.
\<close>

datatype ending = SysExit int | Uncaught exn

fun exit_code :: "ending \<Rightarrow> int" where
  "exit_code (SysExit code) = code"
| "exit_code (Uncaught e) = 1"

text \<open>Statements in sequence: the next routine runs only if no exception is under way.\<close>

definition and_then :: "state \<times> exn option \<Rightarrow> routine \<Rightarrow> state \<times> exn option" where
  "and_then r f = (case r of (s, None) \<Rightarrow> f s | (s, Some e) \<Rightarrow> (s, Some e))"

definition PipelineValidator :: "state \<Rightarrow> state" where
  "PipelineValidator s = s\<lparr>errors := [], warnings := []\<rparr>"

text \<open>The state in which \<open>main\<close> calls the first check: the three lines printed, the logs empty.\<close>

definition main_start :: "env \<Rightarrow> state" where
  "main_start env =
    PipelineValidator
      (py_print (clock_sign @ '' Timestamp: '' @ datetime_now env)
        (py_print (replicate 36 CHR ''='')
          (py_print (lens_sign @ '' Real-Time SMS Pipeline Validation'') init)))"

definition run_checks :: "env \<Rightarrow> routine" where
  "run_checks env s =
    and_then (and_then (and_then (and_then (and_then (and_then
      (check_directories env s)
      (check_docker_containers env))
      (check_network_connectivity env))
      (check_ports env))
      (check_vertica_status env))
      (check_kafka_connectivity env))
      (check_notebook_files env)"

definition main :: "env \<Rightarrow> state \<times> ending" where
  "main env =
    (case run_checks env (main_start env) of
       (s, Some e) \<Rightarrow> (s, Uncaught e)
     | (s, None) \<Rightarrow>
         (case generate_report s of
            (s, success) \<Rightarrow> (s, SysExit (if success then 0 else 1))))"

section \<open>Observations\<close>

text \<open>
  What a routine writes to standard output, and the lines among it that \<open>log_success\<close>
  wrote: \<open>log_success\<close> records nothing, so a success is counted by its line, which alone
  starts with the check mark (an error line starts with the cross mark, a warning line
  with the warning sign, a heading with a newline).
\<close>

definition output_of :: "routine \<Rightarrow> state \<Rightarrow> string list" where
  "output_of f s = drop (length (printed s)) (printed (fst (f s)))"

definition is_success_line :: "string \<Rightarrow> bool" where
  "is_success_line l = (take 3 l = check_mark)"

definition successes :: "string list \<Rightarrow> nat" where
  "successes out = length (filter is_success_line out)"

text \<open>What \<open>generate_report\<close> prints, and the lines of the report by their source text.\<close>

definition report_output :: "state \<Rightarrow> string list" where
  "report_output s = drop (length (printed s)) (printed (fst (generate_report s)))"

definition item_line :: "string \<Rightarrow> string" where
  "item_line m = ''   '' @ bullet @ '' '' @ m"

definition is_item_line :: "string \<Rightarrow> bool" where
  "is_item_line l = (take 6 l = ''   '' @ bullet)"

definition passed_banner :: string where
  "passed_banner = party_sign @ '' ALL CHECKS PASSED!''"

definition next_steps_heading :: string where
  "next_steps_heading = NL # clipboard_sign @ '' Next Steps:''"

definition next_steps_ready :: "string list" where
  "next_steps_ready =
    [''1. Ensure VPN connection to Unifonic Kafka'',
     ''2. Open Jupyter: http://localhost:8888'',
     ''3. Run the realtime_sms_pipeline.ipynb notebook'',
     ''4. Monitor results in DBeaver: http://localhost:8978'']"

definition next_steps_fix :: "string list" where
  "next_steps_fix =
    [''1. Fix the errors listed above'',
     ''2. Run this validation script again'',
     ''3. Ensure all Docker containers are running'']"

definition not_running :: "string \<Rightarrow> string" where
  "not_running container = ''Container not running: '' @ container"

text \<open>
  Two states with the same logs and the same sockets; two results with such states and the
  same exception. The routines read nothing else of the state.
\<close>

definition same_logs :: "state \<Rightarrow> state \<Rightarrow> bool" where
  "same_logs s t = (errors s = errors t \<and> warnings s = warnings t \<and> sockets s = sockets t)"

definition same_result :: "state \<times> exn option \<Rightarrow> state \<times> exn option \<Rightarrow> bool" where
  "same_result r r' = (same_logs (fst r) (fst r') \<and> snd r = snd r')"

section \<open>Environments\<close>

text \<open>
  Concrete environments on which the theorems below are run. In \<open>ready_env\<close> every
  directory and the notebook exist, all four containers run, every command succeeds,
  every port accepts and the Kafka host resolves.
\<close>

definition ready_env :: env where
  "ready_env =
    \<lparr>os_path_exists = (\<lambda>path. True),
     subprocess_run = (\<lambda>argv. Inr \<lparr>returncode = 0,
        stdout = ''spark-master'' @ [NL] @ ''ci-vertica-db'' @ [NL] @ ''dbeaver-client'' @ [NL]
                 @ ''pg-db'' @ [NL]\<rparr>),
     socket_socket = (\<lambda>port. None),
     connect_ex = (\<lambda>addr. Inr 0),
     gethostbyname = (\<lambda>host. Inr ''10.0.0.7''),
     datetime_now = ''2024-05-01 09:30:00.000000''\<rparr>"

text \<open>
  The resolver fails with a system error: \<open>getaddrinfo\<close> returns \<open>EAI_SYSTEM\<close>, which
  \<open>socket.gethostbyname\<close> raises as a plain \<open>OSError\<close>, not as \<open>socket.gaierror\<close>.
\<close>

definition dns_failure_env :: env where
  "dns_failure_env =
    ready_env\<lparr>gethostbyname := (\<lambda>host. Inl (Exn OSError ''[Errno 24] Too many open files''))\<rparr>"

text \<open>Only Jupyter listens: the other four connects are refused (errno 111).\<close>

definition jupyter_only_env :: env where
  "jupyter_only_env =
    ready_env\<lparr>connect_ex := (\<lambda>addr. if snd addr = 8888 then Inr 0 else Inr 111)\<rparr>"

text \<open>\<open>docker ps\<close> lists two containers.\<close>

definition two_containers_env :: env where
  "two_containers_env =
    ready_env\<lparr>subprocess_run := (\<lambda>argv. Inr \<lparr>returncode = 0,
        stdout = ''spark-master'' @ [NL] @ ''pg-db'' @ [NL]\<rparr>)\<rparr>"

text \<open>The Docker daemon is down: \<open>docker ps\<close> exits with status 1 and prints nothing on stdout.\<close>

definition daemon_down_env :: env where
  "daemon_down_env =
    ready_env\<lparr>subprocess_run := (\<lambda>argv. Inr \<lparr>returncode = 1, stdout = []\<rparr>)\<rparr>"

text \<open>No \<open>docker\<close> executable: \<open>subprocess.run\<close> raises \<open>FileNotFoundError\<close>, an \<open>OSError\<close>.\<close>

definition no_docker_env :: env where
  "no_docker_env =
    ready_env\<lparr>subprocess_run :=
      (\<lambda>argv. Inl (Exn OSError ''[Errno 2] No such file or directory: docker''))\<rparr>"

section \<open>Frame lemmas of the logging helpers\<close>

lemma py_print_fields [simp]:
  "errors (py_print x s) = errors s"
  "warnings (py_print x s) = warnings s"
  "sockets (py_print x s) = sockets s"
  "printed (py_print x s) = printed s @ [x]"
  by (simp_all add: py_print_def)

lemma print_each_fields [simp]:
  "errors (print_each f xs s) = errors s"
  "warnings (print_each f xs s) = warnings s"
  "sockets (print_each f xs s) = sockets s"
  "printed (print_each f xs s) = printed s @ map f xs"
  unfolding print_each_def
  by (induction xs arbitrary: s) simp_all

lemma log_error_fields [simp]:
  "errors (log_error m s) = errors s @ [m]"
  "warnings (log_error m s) = warnings s"
  "sockets (log_error m s) = sockets s"
  "printed (log_error m s) = printed s @ [cross_mark @ '' ERROR: '' @ m]"
  by (simp_all add: log_error_def)

lemma log_warning_fields [simp]:
  "errors (log_warning m s) = errors s"
  "warnings (log_warning m s) = warnings s @ [m]"
  "sockets (log_warning m s) = sockets s"
  "printed (log_warning m s) = printed s @ [warning_sign @ ''  WARNING: '' @ m]"
  by (simp_all add: log_warning_def)

lemma log_success_fields [simp]:
  "errors (log_success m s) = errors s"
  "warnings (log_success m s) = warnings s"
  "sockets (log_success m s) = sockets s"
  "printed (log_success m s) = printed s @ [check_mark @ '' '' @ m]"
  by (simp_all add: log_success_def)

lemma generate_report_errors: "errors (fst (generate_report s)) = errors s"
  by (simp add: generate_report_def Let_def)

lemma generate_report_warnings: "warnings (fst (generate_report s)) = warnings s"
  by (simp add: generate_report_def Let_def)

lemma generate_report_verdict: "snd (generate_report s) = (errors s = [])"
  by (simp add: generate_report_def Let_def)

lemma for_each_Nil [simp]: "for_each body [] s = s"
  by (simp add: for_each_def)

lemma for_each_Cons [simp]: "for_each body (x # xs) s = for_each body xs (body x s)"
  by (simp add: for_each_def)

section \<open>The report\<close>

lemma report_output_eq:
  "report_output s =
    [NL # replicate 60 CHR ''='', chart_sign @ '' VALIDATION REPORT'', replicate 60 CHR ''=''] @
    (if errors s = [] \<and> warnings s = [] then
       [passed_banner, rocket_sign @ '' Your pipeline is ready for testing!'']
     else []) @
    (if warnings s \<noteq> [] then
       (NL # warning_sign @ ''  WARNINGS ('' @ str_nat (length (warnings s)) @ ''):'') #
       map item_line (warnings s)
     else []) @
    (if errors s \<noteq> [] then
       (NL # cross_mark @ '' ERRORS ('' @ str_nat (length (errors s)) @ ''):'') #
       map item_line (errors s) @
       [NL # wrench_sign @ '' Please fix the errors before running the pipeline'']
     else []) @
    [next_steps_heading] @
    (if errors s = [] then next_steps_ready else next_steps_fix)"
  unfolding report_output_def generate_report_def Let_def
  by (auto simp: item_line_def passed_banner_def next_steps_heading_def next_steps_ready_def
      next_steps_fix_def)

lemma passed_banner_in_report:
  "passed_banner \<in> set (report_output s) \<longleftrightarrow> errors s = [] \<and> warnings s = []"
  unfolding report_output_eq
  by (auto simp: passed_banner_def item_line_def party_sign_def chart_sign_def rocket_sign_def
      next_steps_heading_def next_steps_ready_def next_steps_fix_def eval_nat_numeral)

lemma is_item_line_item [simp]: "is_item_line (item_line m)"
  by (simp add: is_item_line_def item_line_def bullet_def)

lemma filter_item_lines [simp]: "filter is_item_line (map item_line ms) = map item_line ms"
  by (induction ms) simp_all

lemma is_item_line_other [simp]:
  "\<not> is_item_line (NL # l)"
  "\<not> is_item_line (replicate 60 CHR ''='')"
  "\<not> is_item_line (chart_sign @ l)"
  "\<not> is_item_line (rocket_sign @ l)"
  "\<not> is_item_line passed_banner"
  "\<not> is_item_line next_steps_heading"
  by (simp_all add: is_item_line_def chart_sign_def rocket_sign_def passed_banner_def
      party_sign_def next_steps_heading_def eval_nat_numeral)

lemma next_steps_no_items [simp]:
  "filter is_item_line next_steps_ready = []"
  "filter is_item_line next_steps_fix = []"
  by (simp_all add: is_item_line_def next_steps_ready_def next_steps_fix_def)

lemma report_item_lines:
  "filter is_item_line (report_output s) = map item_line (warnings s) @ map item_line (errors s)"
  unfolding report_output_eq by simp

text \<open>
  C3. \<open>generate_report\<close> returns true exactly when the errors list is empty, whatever the
  warnings list holds: replacing the warnings by any list \<open>ws\<close> leaves the returned value
  as it is.
\<close>

theorem generate_report_returns:
  "snd (generate_report s) = (errors s = [])
   \<and> snd (generate_report (s\<lparr>warnings := ws\<rparr>)) = snd (generate_report s)"
  by (simp add: generate_report_verdict)

text \<open>
  C9. \<open>generate_report\<close> modifies neither log: from every state, the errors list and the
  warnings list after the call are the lists before it.
\<close>

theorem generate_report_keeps_logs:
  "errors (fst (generate_report s)) = errors s
   \<and> warnings (fst (generate_report s)) = warnings s"
  by (simp add: generate_report_errors generate_report_warnings)

text \<open>
  C4. Of what \<open>generate_report\<close> prints: the "all checks passed" banner is among the lines
  exactly when both lists are empty; the item lines printed are, in this order, one per
  warning and then one per error; and the output ends with the next-steps heading
  followed by one of two lists, chosen by whether the errors list is empty.
\<close>

theorem generate_report_prints:
  "(passed_banner \<in> set (report_output s) \<longleftrightarrow> errors s = [] \<and> warnings s = [])
   \<and> filter is_item_line (report_output s) = map item_line (warnings s) @ map item_line (errors s)
   \<and> (\<exists>front. report_output s =
          front @ next_steps_heading # (if errors s = [] then next_steps_ready else next_steps_fix))"
proof (intro conjI)
  show "passed_banner \<in> set (report_output s) \<longleftrightarrow> errors s = [] \<and> warnings s = []"
    by (rule passed_banner_in_report)
  show "filter is_item_line (report_output s) = map item_line (warnings s) @ map item_line (errors s)"
    by (rule report_item_lines)
  show "\<exists>front. report_output s =
          front @ next_steps_heading # (if errors s = [] then next_steps_ready else next_steps_fix)"
    unfolding report_output_eq
    by (metis append_Cons append_Nil append_assoc)
qed

section \<open>The exit code\<close>

text \<open>
  C2. The process ends with exit code 0 or 1, and with 0 exactly when the run reaches the
  report and the errors list is empty there. The warnings list does not occur in the
  condition. (A run that an uncaught exception ends before the report exits with 1.)
\<close>

theorem main_exit_code:
  "(exit_code (snd (main env)) = 0 \<or> exit_code (snd (main env)) = 1)
   \<and> (exit_code (snd (main env)) = 0 \<longleftrightarrow>
        snd (run_checks env (main_start env)) = None
        \<and> errors (fst (run_checks env (main_start env))) = [])"
proof (cases "run_checks env (main_start env)")
  case (Pair s x)
  then show ?thesis
    by (cases x) (simp_all add: main_def split_beta generate_report_verdict)
qed

section \<open>Exceptions that leave a routine\<close>

lemma routine_returns:
  "snd (check_directories env s) = None"
  "snd (check_docker_containers env s) = None"
  "snd (check_network_connectivity env s) = None"
  "snd (check_vertica_status env s) = None"
  "snd (check_notebook_files env s) = None"
  by (simp_all add: check_directories_def check_docker_containers_def
      check_network_connectivity_def check_vertica_status_def check_notebook_files_def Let_def
      split: sum.splits)

lemma for_each_raising_returns:
  assumes "\<And>x s. snd (body x s) = None"
  shows "snd (for_each_raising body xs s) = None"
proof (induction xs arbitrary: s)
  case Nil
  show ?case by simp
next
  case (Cons x xs)
  obtain s' where "body x s = (s', None)"
    using assms [of x s] by (cases "body x s") simp
  with Cons.IH show ?case by simp
qed

lemma check_port_returns:
  "snd (check_port env (port, service) s) = None \<longleftrightarrow> socket_socket env port = None"
  by (simp add: check_port_def Let_def split: option.splits)

lemma check_ports_returns:
  assumes "\<And>port. socket_socket env port = None"
  shows "snd (check_ports env s) = None"
  unfolding check_ports_def
proof (rule for_each_raising_returns)
  fix ps s
  show "snd (check_port env ps s) = None"
    using assms by (cases ps) (simp add: check_port_returns)
qed

lemma check_kafka_connectivity_outcome:
  "snd (check_kafka_connectivity env s) =
    (case gethostbyname env (hd (split kafka_server CHR '':'')) of
       Inr address \<Rightarrow> None
     | Inl e \<Rightarrow> if is_gaierror e then None else Some e)"
  by (simp add: check_kafka_connectivity_def Let_def split: sum.splits)

lemma and_then_returned: "snd r = None \<Longrightarrow> and_then r f = f (fst r)"
  by (cases r) (simp add: and_then_def)

lemma and_then_last: "snd (f (fst r)) = None \<Longrightarrow> snd (and_then r f) = snd r"
  by (cases r) (auto simp: and_then_def split: option.splits)

lemma run_checks_outcome:
  assumes "\<And>port. socket_socket env port = None"
  shows "snd (run_checks env s) =
    (case gethostbyname env (hd (split kafka_server CHR '':'')) of
       Inr address \<Rightarrow> None
     | Inl e \<Rightarrow> if is_gaierror e then None else Some e)"
proof -
  define r where "r =
    and_then (and_then (and_then (and_then
      (check_directories env s)
      (check_docker_containers env))
      (check_network_connectivity env))
      (check_ports env))
      (check_vertica_status env)"
  have r: "snd r = None"
    by (simp add: r_def and_then_returned routine_returns check_ports_returns [OF assms])
  have "run_checks env s =
      and_then (and_then r (check_kafka_connectivity env)) (check_notebook_files env)"
    by (simp add: run_checks_def r_def)
  then have "snd (run_checks env s) = snd (and_then r (check_kafka_connectivity env))"
    by (simp add: and_then_last routine_returns)
  also have "\<dots> = snd (check_kafka_connectivity env (fst r))"
    by (simp add: and_then_returned r)
  finally show ?thesis
    by (simp add: check_kafka_connectivity_outcome)
qed

text \<open>
  C1. Every check routine is to catch any exception of its operating-system call and log
  it, so that none reaches the entry point; in particular \<open>check_kafka_connectivity\<close>, for
  every exception of its DNS lookup. The routines with \<open>except Exception\<close> do
  (\<open>routine_returns\<close>), but the handler of \<open>check_kafka_connectivity\<close> catches
  \<open>socket.gaierror\<close> only: where the lookup raises another \<open>OSError\<close>, the exception
  leaves the routine, reaches the entry point uncaught, and the process exits with
  status 1 before any report is printed.
\<close>

theorem kafka_lookup_oserror_uncaught:
  "snd (check_kafka_connectivity dns_failure_env s) =
      Some (Exn OSError ''[Errno 24] Too many open files'')
   \<and> snd (main dns_failure_env) = Uncaught (Exn OSError ''[Errno 24] Too many open files'')
   \<and> exit_code (snd (main dns_failure_env)) = 1"
proof -
  have sock: "\<And>port. socket_socket dns_failure_env port = None"
    by (simp add: dns_failure_env_def ready_env_def)
  have "snd (run_checks dns_failure_env (main_start dns_failure_env)) =
      Some (Exn OSError ''[Errno 24] Too many open files'')"
    by (subst run_checks_outcome [OF sock]) (simp add: dns_failure_env_def is_gaierror_def)
  then have "snd (main dns_failure_env) = Uncaught (Exn OSError ''[Errno 24] Too many open files'')"
    by (cases "run_checks dns_failure_env (main_start dns_failure_env)") (simp add: main_def)
  moreover have "snd (check_kafka_connectivity dns_failure_env s) =
      Some (Exn OSError ''[Errno 24] Too many open files'')"
    by (simp add: check_kafka_connectivity_outcome dns_failure_env_def is_gaierror_def)
  ultimately show ?thesis by simp
qed

section \<open>Sockets\<close>

lemma check_port_sockets:
  "sockets (fst (check_port env (port, service) s)) =
     sockets s @ (if socket_socket env port = None then [SockClosed] else [])"
  by (simp add: check_port_def sock_close_def Let_def split: option.splits sum.splits)

lemma for_each_raising_sockets:
  assumes step: "\<And>x s. sockets (fst (body x s)) = sockets s @ (if ok x then [SockClosed] else [])"
    and ret: "\<And>x s. snd (body x s) = None \<longleftrightarrow> ok x"
  shows "sockets (fst (for_each_raising body xs s)) =
    sockets s @ replicate (length (takeWhile ok xs)) SockClosed"
proof (induction xs arbitrary: s)
  case Nil
  show ?case by simp
next
  case (Cons x xs)
  obtain s' r where b: "body x s = (s', r)" by (cases "body x s")
  from step [of x s] ret [of x s] b
  have s': "sockets s' = sockets s @ (if ok x then [SockClosed] else [])" and r: "r = None \<longleftrightarrow> ok x"
    by simp_all
  show ?case
  proof (cases "ok x")
    case True
    with r s' b Cons.IH [of s'] show ?thesis
      by (simp add: replicate_append_same)
  next
    case False
    with r s' b show ?thesis by auto
  qed
qed

lemma check_ports_sockets:
  "sockets (fst (check_ports env s)) =
    sockets s @ replicate
      (length (takeWhile (\<lambda>(port, service). socket_socket env port = None) ports_to_check))
      SockClosed"
proof -
  have "sockets (fst (check_ports env s)) =
    sockets (py_print (NL # plug_sign @ '' Checking port accessibility...'') s) @ replicate
      (length (takeWhile (\<lambda>(port, service). socket_socket env port = None) ports_to_check))
      SockClosed"
    unfolding check_ports_def
    by (rule for_each_raising_sockets) (auto simp: check_port_sockets check_port_returns)
  then show ?thesis by simp
qed

text \<open>
  C7. The iteration of \<open>check_ports\<close> for a port leaves the socket it created closed,
  whatever the connect attempt did (returned 0, returned an error number, raised), and
  creates none where \<open>socket.socket\<close> itself raised. So after \<open>check_ports\<close> the sockets that
  existed before are as they were and every socket created since is closed.
\<close>

theorem check_ports_closes_sockets:
  "sockets (fst (check_port env (port, service) s)) =
      sockets s @ (if socket_socket env port = None then [SockClosed] else [])
   \<and> sockets (fst (check_ports env s)) =
      sockets s @ replicate
        (length (takeWhile (\<lambda>(port, service). socket_socket env port = None) ports_to_check))
        SockClosed
   \<and> SockOpen \<notin> set (drop (length (sockets s)) (sockets (fst (check_ports env s))))"
  by (simp add: check_port_sockets check_ports_sockets)

section \<open>The port check\<close>

lemma is_success_line_simps [simp]:
  "is_success_line (check_mark @ m)"
  "\<not> is_success_line (cross_mark @ m)"
  "\<not> is_success_line (warning_sign @ m)"
  "\<not> is_success_line (NL # m)"
  by (simp_all add: is_success_line_def check_mark_def cross_mark_def warning_sign_def)

lemma check_port_open:
  assumes "socket_socket env port = None" and "connect_ex env (''localhost'', port) = Inr 0"
  shows "check_port env (port, service) s =
    (s\<lparr>printed := printed s @ [check_mark @ '' '' @ service @ '' accessible on port '' @ str_nat port],
       sockets := sockets s @ [SockClosed]\<rparr>, None)"
  using assms by (simp add: check_port_def sock_close_def Let_def log_success_def py_print_def)

lemma check_port_closed:
  assumes "socket_socket env port = None" and "connect_ex env (''localhost'', port) \<noteq> Inr 0"
  shows "\<exists>m. check_port env (port, service) s =
    (s\<lparr>warnings := warnings s @ [m],
       printed := printed s @ [warning_sign @ ''  WARNING: '' @ m],
       sockets := sockets s @ [SockClosed]\<rparr>, None)"
  using assms
  by (auto simp: check_port_def sock_close_def Let_def log_warning_def py_print_def split: sum.splits)

text \<open>
  C5. Where the sockets can be created, the connect to localhost:8888 returns 0 and the
  connects to ports 8978, 15433, 5445 and 4040 do not (they return an error number, as a
  refused or timed-out connect does, or raise), \<open>check_ports\<close> returns having printed
  exactly one success line, appended exactly four warnings and appended no error.
\<close>

theorem check_ports_scenario:
  assumes sock: "\<forall>port \<in> {8888, 8978, 15433, 5445, 4040}. socket_socket env port = None"
    and jupyter: "connect_ex env (''localhost'', 8888) = Inr 0"
    and others: "\<forall>port \<in> {8978, 15433, 5445, 4040}. connect_ex env (''localhost'', port) \<noteq> Inr 0"
  shows "snd (check_ports env s) = None
    \<and> successes (output_of (check_ports env) s) = 1
    \<and> (\<exists>w1 w2 w3 w4. warnings (fst (check_ports env s)) = warnings s @ [w1, w2, w3, w4])
    \<and> errors (fst (check_ports env s)) = errors s"
proof -
  have s: "socket_socket env 8888 = None" "socket_socket env 8978 = None"
     "socket_socket env 15433 = None" "socket_socket env 5445 = None" "socket_socket env 4040 = None"
    using sock by simp_all
  have c: "connect_ex env (''localhost'', 8978) \<noteq> Inr 0" "connect_ex env (''localhost'', 15433) \<noteq> Inr 0"
    "connect_ex env (''localhost'', 5445) \<noteq> Inr 0" "connect_ex env (''localhost'', 4040) \<noteq> Inr 0"
    using others by simp_all
  define s0 where "s0 = py_print (NL # plug_sign @ '' Checking port accessibility...'') s"
  define s1 where "s1 = fst (check_port env (8888, ''Jupyter'') s0)"
  have r1: "check_port env (8888, ''Jupyter'') s0 = (s1, None)"
    and p1: "printed s1 = printed s0 @ [check_mark @ '' Jupyter accessible on port '' @ str_nat 8888]"
    and w1: "warnings s1 = warnings s0" and e1: "errors s1 = errors s0"
    unfolding s1_def using check_port_open [OF s(1) jupyter, of "''Jupyter''" s0] by simp_all
  obtain m2 s2 where r2: "check_port env (8978, ''DBeaver'') s1 = (s2, None)"
    and p2: "printed s2 = printed s1 @ [warning_sign @ ''  WARNING: '' @ m2]"
    and w2: "warnings s2 = warnings s1 @ [m2]" and e2: "errors s2 = errors s1"
    using check_port_closed [OF s(2) c(1), of "''DBeaver''" s1] by auto
  obtain m3 s3 where r3: "check_port env (15433, ''Vertica'') s2 = (s3, None)"
    and p3: "printed s3 = printed s2 @ [warning_sign @ ''  WARNING: '' @ m3]"
    and w3: "warnings s3 = warnings s2 @ [m3]" and e3: "errors s3 = errors s2"
    using check_port_closed [OF s(3) c(2), of "''Vertica''" s2] by auto
  obtain m4 s4 where r4: "check_port env (5445, ''PostgreSQL'') s3 = (s4, None)"
    and p4: "printed s4 = printed s3 @ [warning_sign @ ''  WARNING: '' @ m4]"
    and w4: "warnings s4 = warnings s3 @ [m4]" and e4: "errors s4 = errors s3"
    using check_port_closed [OF s(4) c(3), of "''PostgreSQL''" s3] by auto
  obtain m5 s5 where r5: "check_port env (4040, ''Spark UI'') s4 = (s5, None)"
    and p5: "printed s5 = printed s4 @ [warning_sign @ ''  WARNING: '' @ m5]"
    and w5: "warnings s5 = warnings s4 @ [m5]" and e5: "errors s5 = errors s4"
    using check_port_closed [OF s(5) c(4), of "''Spark UI''" s4] by auto
  have run: "check_ports env s = (s5, None)"
    by (simp add: check_ports_def ports_to_check_def s0_def [symmetric] r1 r2 r3 r4 r5)
  have "printed s5 = printed s @
     [NL # plug_sign @ '' Checking port accessibility...'',
      check_mark @ '' Jupyter accessible on port '' @ str_nat 8888,
      warning_sign @ ''  WARNING: '' @ m2, warning_sign @ ''  WARNING: '' @ m3,
      warning_sign @ ''  WARNING: '' @ m4, warning_sign @ ''  WARNING: '' @ m5]"
    by (simp add: p1 p2 p3 p4 p5 s0_def)
  then have "successes (output_of (check_ports env) s) = 1"
    by (simp add: output_of_def run successes_def)
  moreover have "warnings s5 = warnings s @ [m2, m3, m4, m5]"
    by (simp add: w1 w2 w3 w4 w5 s0_def)
  moreover have "errors s5 = errors s"
    by (simp add: e1 e2 e3 e4 e5 s0_def)
  ultimately show ?thesis
    by (simp add: run)
qed

text \<open>The scenario run: only Jupyter listens, the other four connects are refused.\<close>

theorem check_ports_scenario_witness:
  "connect_ex jupyter_only_env (''localhost'', 8888) = Inr 0
   \<and> connect_ex jupyter_only_env (''localhost'', 8978) = Inr 111
   \<and> snd (check_ports jupyter_only_env init) = None
   \<and> successes (output_of (check_ports jupyter_only_env) init) = 1
   \<and> (\<exists>w1 w2 w3 w4. warnings (fst (check_ports jupyter_only_env init)) = warnings init @ [w1, w2, w3, w4])
   \<and> errors (fst (check_ports jupyter_only_env init)) = errors init"
proof -
  have sock: "\<forall>port \<in> {8888, 8978, 15433, 5445, 4040}. socket_socket jupyter_only_env port = None"
    by (simp add: jupyter_only_env_def ready_env_def)
  have jupyter: "connect_ex jupyter_only_env (''localhost'', 8888) = Inr 0"
    by (simp add: jupyter_only_env_def)
  have others: "\<forall>port \<in> {8978, 15433, 5445, 4040}.
      connect_ex jupyter_only_env (''localhost'', port) \<noteq> Inr 0"
    by (simp add: jupyter_only_env_def)
  have "connect_ex jupyter_only_env (''localhost'', 8978) = Inr 111"
    by (simp add: jupyter_only_env_def)
  with jupyter check_ports_scenario [OF sock jupyter others, of init] show ?thesis
    by blast
qed

section \<open>The container check\<close>

lemma docker_returns_errors:
  assumes "subprocess_run env docker_ps = Inr result"
  shows "errors (fst (check_docker_containers env s)) =
     errors s @ map not_running
       (filter (\<lambda>container. container \<notin> set (split (strip (stdout result)) NL)) required_containers)"
  using assms
  by (simp add: check_docker_containers_def Let_def required_containers_def not_running_def)

lemma docker_raises:
  assumes "subprocess_run env docker_ps = Inl e"
  shows "check_docker_containers env s =
    (log_error (''Failed to check Docker containers: '' @ exn_str e)
       (py_print (NL # whale_sign @ '' Checking Docker containers...'') s), None)"
  using assms by (simp add: check_docker_containers_def Let_def)

lemma strip_Nil [simp]: "strip [] = []"
  by (simp add: strip_def lstrip_def rstrip_def strip_head.simps)

text \<open>
  C6. Where the container-list command returns and the names of its output are exactly
  spark-master and pg-db, \<open>check_docker_containers\<close> prints two success lines (for these
  two) and appends two errors, for ci-vertica-db and for dbeaver-client, in the order of
  the required list.
\<close>

theorem check_docker_containers_scenario:
  assumes "subprocess_run env docker_ps = Inr result"
    and "split (strip (stdout result)) NL = [''spark-master'', ''pg-db'']"
  shows "snd (check_docker_containers env s) = None
    \<and> output_of (check_docker_containers env) s =
        [NL # whale_sign @ '' Checking Docker containers...'',
         check_mark @ '' Container running: spark-master'',
         cross_mark @ '' ERROR: Container not running: ci-vertica-db'',
         cross_mark @ '' ERROR: Container not running: dbeaver-client'',
         check_mark @ '' Container running: pg-db'']
    \<and> successes (output_of (check_docker_containers env) s) = 2
    \<and> errors (fst (check_docker_containers env s)) =
        errors s @ [''Container not running: ci-vertica-db'', ''Container not running: dbeaver-client'']
    \<and> warnings (fst (check_docker_containers env s)) = warnings s"
proof -
  have out: "output_of (check_docker_containers env) s =
        [NL # whale_sign @ '' Checking Docker containers...'',
         check_mark @ '' Container running: spark-master'',
         cross_mark @ '' ERROR: Container not running: ci-vertica-db'',
         cross_mark @ '' ERROR: Container not running: dbeaver-client'',
         check_mark @ '' Container running: pg-db'']"
    using assms
    by (simp add: output_of_def check_docker_containers_def Let_def required_containers_def)
  have "successes (output_of (check_docker_containers env) s) = 2"
    unfolding out by (simp add: successes_def)
  moreover have "errors (fst (check_docker_containers env s)) =
        errors s @ [''Container not running: ci-vertica-db'', ''Container not running: dbeaver-client'']"
    using assms by (simp add: docker_returns_errors required_containers_def not_running_def)
  moreover have "warnings (fst (check_docker_containers env s)) = warnings s"
    using assms by (simp add: check_docker_containers_def Let_def required_containers_def)
  moreover have "snd (check_docker_containers env s) = None"
    by (rule routine_returns)
  ultimately show ?thesis using out by simp
qed

lemma two_containers_names:
  "split (strip (''spark-master'' @ [NL] @ ''pg-db'' @ [NL])) NL = [''spark-master'', ''pg-db'']"
  by (simp add: strip_def lstrip_def rstrip_def strip_head.simps head_len_def py_spaces_def)

text \<open>The scenario run: \<open>docker ps\<close> prints the two names, one per line.\<close>

theorem check_docker_containers_scenario_witness:
  "split (strip (''spark-master'' @ [NL] @ ''pg-db'' @ [NL])) NL = [''spark-master'', ''pg-db'']
   \<and> successes (output_of (check_docker_containers two_containers_env) init) = 2
   \<and> errors (fst (check_docker_containers two_containers_env init)) =
        [''Container not running: ci-vertica-db'', ''Container not running: dbeaver-client'']"
proof -
  let ?result = "\<lparr>returncode = 0, stdout = ''spark-master'' @ [NL] @ ''pg-db'' @ [NL]\<rparr>"
  have run: "subprocess_run two_containers_env docker_ps = Inr ?result"
    by (simp add: two_containers_env_def)
  have names: "split (strip (stdout ?result)) NL = [''spark-master'', ''pg-db'']"
    using two_containers_names by simp
  from check_docker_containers_scenario [OF run names, of init] two_containers_names
  show ?thesis by (simp add: init_def successes_def)
qed

text \<open>
  C10. Where the container-list command returns with empty output (whatever its exit
  status), \<open>check_docker_containers\<close> appends four "Container not running" errors, one per
  required container. Where the command raises, it appends the single "Failed to check
  Docker containers" error; and an error of that form is among those appended only then.
\<close>

theorem check_docker_containers_empty_output:
  "(\<forall>result. subprocess_run env docker_ps = Inr result \<longrightarrow> strip (stdout result) = [] \<longrightarrow>
      errors (fst (check_docker_containers env s)) =
        errors s @ [''Container not running: spark-master'', ''Container not running: ci-vertica-db'',
                    ''Container not running: dbeaver-client'', ''Container not running: pg-db''])
   \<and> (\<forall>e. subprocess_run env docker_ps = Inl e \<longrightarrow>
      errors (fst (check_docker_containers env s)) =
        errors s @ [''Failed to check Docker containers: '' @ exn_str e])
   \<and> ((\<exists>m. ''Failed to check Docker containers: '' @ m
            \<in> set (drop (length (errors s)) (errors (fst (check_docker_containers env s)))))
        \<longleftrightarrow> (\<exists>e. subprocess_run env docker_ps = Inl e))"
proof (intro conjI allI impI)
  fix result
  assume "subprocess_run env docker_ps = Inr result" and "strip (stdout result) = []"
  then show "errors (fst (check_docker_containers env s)) =
        errors s @ [''Container not running: spark-master'', ''Container not running: ci-vertica-db'',
                    ''Container not running: dbeaver-client'', ''Container not running: pg-db'']"
    by (simp add: docker_returns_errors required_containers_def not_running_def)
next
  fix e
  assume "subprocess_run env docker_ps = Inl e"
  then show "errors (fst (check_docker_containers env s)) =
        errors s @ [''Failed to check Docker containers: '' @ exn_str e]"
    by (simp add: docker_raises)
next
  show "(\<exists>m. ''Failed to check Docker containers: '' @ m
            \<in> set (drop (length (errors s)) (errors (fst (check_docker_containers env s)))))
        \<longleftrightarrow> (\<exists>e. subprocess_run env docker_ps = Inl e)"
  proof (cases "subprocess_run env docker_ps")
    case (Inl e)
    then show ?thesis by (simp add: docker_raises)
  next
    case (Inr result)
    then show ?thesis
      by (auto simp: docker_returns_errors not_running_def)
  qed
qed

text \<open>
  Two runs: the daemon is down (\<open>docker ps\<close> exits with status 1 and no output), and the
  \<open>docker\<close> executable is missing (\<open>subprocess.run\<close> raises).
\<close>

theorem check_docker_containers_empty_output_witness:
  "errors (fst (check_docker_containers daemon_down_env init)) =
      [''Container not running: spark-master'', ''Container not running: ci-vertica-db'',
       ''Container not running: dbeaver-client'', ''Container not running: pg-db'']
   \<and> errors (fst (check_docker_containers no_docker_env init)) =
      [''Failed to check Docker containers: [Errno 2] No such file or directory: docker'']"
proof -
  let ?result = "\<lparr>returncode = 1, stdout = []\<rparr>"
  let ?e = "Exn OSError ''[Errno 2] No such file or directory: docker''"
  have down: "subprocess_run daemon_down_env docker_ps = Inr ?result"
    by (simp add: daemon_down_env_def)
  have empty: "strip (stdout ?result) = []"
    by simp
  have missing: "subprocess_run no_docker_env docker_ps = Inl ?e"
    by (simp add: no_docker_env_def)
  from check_docker_containers_empty_output [of daemon_down_env init] down empty
  have "errors (fst (check_docker_containers daemon_down_env init)) =
      errors init @ [''Container not running: spark-master'', ''Container not running: ci-vertica-db'',
       ''Container not running: dbeaver-client'', ''Container not running: pg-db'']"
    by blast
  moreover from check_docker_containers_empty_output [of no_docker_env init] missing
  have "errors (fst (check_docker_containers no_docker_env init)) =
      errors init @ [''Failed to check Docker containers: '' @ exn_str ?e]"
    by blast
  ultimately show ?thesis by (simp add: init_def)
qed

section \<open>Determinism\<close>

lemma same_logs_print [simp]:
  "same_logs (py_print x s) (py_print y t) = same_logs s t"
  "same_logs (log_success x s) (log_success y t) = same_logs s t"
  by (simp_all add: same_logs_def)

lemma same_logs_log:
  "same_logs s t \<Longrightarrow> same_logs (log_error m s) (log_error m t)"
  "same_logs s t \<Longrightarrow> same_logs (log_warning m s) (log_warning m t)"
  by (simp_all add: same_logs_def)

lemma for_each_same_logs:
  assumes "\<And>x s t. same_logs s t \<Longrightarrow> same_logs (body x s) (body x t)"
    and "same_logs s t"
  shows "same_logs (for_each body xs s) (for_each body xs t)"
  using assms(2)
proof (induction xs arbitrary: s t)
  case Nil
  then show ?case by simp
next
  case (Cons x xs)
  then show ?case by (simp add: assms(1))
qed

lemma for_each_raising_same_result:
  assumes "\<And>x s t. same_logs s t \<Longrightarrow> same_result (body x s) (body x t)"
    and "same_logs s t"
  shows "same_result (for_each_raising body xs s) (for_each_raising body xs t)"
  using assms(2)
proof (induction xs arbitrary: s t)
  case Nil
  then show ?case by (simp add: same_result_def)
next
  case (Cons x xs)
  from assms(1) [OF Cons.prems, of x]
  have step: "same_logs (fst (body x s)) (fst (body x t))" "snd (body x s) = snd (body x t)"
    by (simp_all add: same_result_def)
  show ?case
  proof (cases "snd (body x s)")
    case None
    with step Cons.IH [OF step(1)] show ?thesis
      by (cases "body x s"; cases "body x t") simp
  next
    case (Some e)
    with step show ?thesis
      by (cases "body x s"; cases "body x t") (simp add: same_result_def)
  qed
qed

lemma check_directories_same:
  "same_logs s t \<Longrightarrow> same_result (check_directories env s) (check_directories env t)"
  unfolding check_directories_def Let_def same_result_def
  by (simp add: for_each_same_logs same_logs_log)

lemma check_docker_containers_same:
  "same_logs s t \<Longrightarrow> same_result (check_docker_containers env s) (check_docker_containers env t)"
  unfolding check_docker_containers_def Let_def same_result_def
  by (simp add: for_each_same_logs same_logs_log split: sum.splits)

lemma check_network_connectivity_same:
  "same_logs s t \<Longrightarrow>
    same_result (check_network_connectivity env s) (check_network_connectivity env t)"
  unfolding check_network_connectivity_def Let_def same_result_def
  by (simp add: same_logs_log split: sum.splits)

lemma check_port_same:
  "same_logs s t \<Longrightarrow> same_result (check_port env ps s) (check_port env ps t)"
  unfolding check_port_def Let_def same_result_def
  by (simp add: same_logs_def sock_close_def split: prod.splits option.splits sum.splits)

lemma check_ports_same:
  "same_logs s t \<Longrightarrow> same_result (check_ports env s) (check_ports env t)"
  unfolding check_ports_def
  by (rule for_each_raising_same_result) (simp_all add: check_port_same)

lemma check_vertica_status_same:
  "same_logs s t \<Longrightarrow> same_result (check_vertica_status env s) (check_vertica_status env t)"
  unfolding check_vertica_status_def Let_def same_result_def
  by (simp add: same_logs_log split: sum.splits)

lemma check_kafka_connectivity_same:
  "same_logs s t \<Longrightarrow>
    same_result (check_kafka_connectivity env s) (check_kafka_connectivity env t)"
  unfolding check_kafka_connectivity_def Let_def same_result_def
  by (simp add: same_logs_log split: sum.splits)

lemma check_notebook_files_same:
  "same_logs s t \<Longrightarrow> same_result (check_notebook_files env s) (check_notebook_files env t)"
  unfolding check_notebook_files_def Let_def same_result_def
  by (simp add: same_logs_log)

lemma and_then_same:
  assumes "same_result r r'" and "\<And>s t. same_logs s t \<Longrightarrow> same_result (f s) (f t)"
  shows "same_result (and_then r f) (and_then r' f)"
  using assms
  by (cases r; cases r') (auto simp: and_then_def same_result_def split: option.splits)

lemma run_checks_same:
  assumes "same_logs s t"
  shows "same_result (run_checks env s) (run_checks env t)"
  unfolding run_checks_def
  by (intro and_then_same check_directories_same check_docker_containers_same
      check_network_connectivity_same check_ports_same check_vertica_status_same
      check_kafka_connectivity_same check_notebook_files_same assms)

lemma check_port_clock: "check_port (env\<lparr>datetime_now := t\<rparr>) = check_port env"
  by (intro ext) (simp add: check_port_def split: prod.splits option.splits)

lemma checks_clock:
  "check_directories (env\<lparr>datetime_now := t\<rparr>) = check_directories env"
  "check_docker_containers (env\<lparr>datetime_now := t\<rparr>) = check_docker_containers env"
  "check_network_connectivity (env\<lparr>datetime_now := t\<rparr>) = check_network_connectivity env"
  "check_ports (env\<lparr>datetime_now := t\<rparr>) = check_ports env"
  "check_vertica_status (env\<lparr>datetime_now := t\<rparr>) = check_vertica_status env"
  "check_kafka_connectivity (env\<lparr>datetime_now := t\<rparr>) = check_kafka_connectivity env"
  "check_notebook_files (env\<lparr>datetime_now := t\<rparr>) = check_notebook_files env"
  by (simp_all add: fun_eq_iff check_directories_def check_docker_containers_def
      check_network_connectivity_def check_ports_def check_port_clock check_vertica_status_def
      check_kafka_connectivity_def check_notebook_files_def)

lemma run_checks_clock: "run_checks (env\<lparr>datetime_now := t\<rparr>) = run_checks env"
  by (intro ext) (simp add: run_checks_def checks_clock)

lemma main_start_clock: "same_logs (main_start (env\<lparr>datetime_now := t\<rparr>)) (main_start env)"
  by (simp add: main_start_def PipelineValidator_def same_logs_def)

text \<open>
  C8. Two executions of the whole run meet the same filesystem answers, subprocess
  results, socket and DNS outcomes; what may differ between them is the reading of the
  clock, which \<open>main\<close> prints. Whatever the second reading \<open>t\<close> is, the two runs end with
  the same errors list, the same warnings list and the same exit code.
\<close>

theorem main_deterministic:
  "errors (fst (main (env\<lparr>datetime_now := t\<rparr>))) = errors (fst (main env))
   \<and> warnings (fst (main (env\<lparr>datetime_now := t\<rparr>))) = warnings (fst (main env))
   \<and> exit_code (snd (main (env\<lparr>datetime_now := t\<rparr>))) = exit_code (snd (main env))"
proof -
  let ?r' = "run_checks env (main_start (env\<lparr>datetime_now := t\<rparr>))"
  let ?r = "run_checks env (main_start env)"
  have "same_result ?r' ?r"
    by (rule run_checks_same) (rule main_start_clock)
  then have logs: "errors (fst ?r') = errors (fst ?r)" "warnings (fst ?r') = warnings (fst ?r)"
    and exn: "snd ?r' = snd ?r"
    by (simp_all add: same_result_def same_logs_def)
  obtain s' x' where r': "?r' = (s', x')" by (cases ?r')
  obtain s x where r: "?r = (s, x)" by (cases ?r)
  from logs exn r r' have eq: "errors s' = errors s" "warnings s' = warnings s" "x' = x"
    by simp_all
  show ?thesis
    using eq
    by (cases x)
      (simp_all add: main_def run_checks_clock r r' split_beta
        generate_report_errors generate_report_warnings generate_report_verdict)
qed

end
